theory Spec2Isabelle
  imports Main "HOL-Library.Sublist"
begin

section \<open>Python values used by the client\<close>

text \<open>
  The exception classes that occur in \<^verbatim>\<open>service_coordinator_client.py\<close>:
  \<^verbatim>\<open>grpc.RpcError\<close> (raised by the stub), the builtin \<^verbatim>\<open>Exception\<close>
  (raised by the client on a status code other than 200) and the builtin
  \<^verbatim>\<open>TypeError\<close> (raised by the interpreter when a \<^verbatim>\<open>raise\<close> statement is given
  an object that is not an exception). An exception object carries its message and
  the two chaining attributes \<^verbatim>\<open>__cause__\<close> and \<^verbatim>\<open>__context__\<close>.
\<close>

datatype exc_class = RpcError | Exception | TypeError

datatype py_exc =
  PyExc (exc_class: exc_class) (exc_message: string)
        (exc_cause: "py_exc option") (exc_context: "py_exc option")

text \<open>
  \<^verbatim>\<open>issubclass\<close> on the three classes: \<^verbatim>\<open>RpcError\<close> and \<^verbatim>\<open>TypeError\<close> both
  derive from \<^verbatim>\<open>Exception\<close>, and neither derives from the other.
\<close>

fun issubclass :: "exc_class \<Rightarrow> exc_class \<Rightarrow> bool" where
  "issubclass c Exception = True"
| "issubclass RpcError RpcError = True"
| "issubclass TypeError TypeError = True"
| "issubclass c d = False"

text \<open>
  The operand of a \<^verbatim>\<open>raise\<close> statement: an exception instance, or (as in the four
  \<^verbatim>\<open>except grpc.RpcError\<close> handlers of the client) a \<^verbatim>\<open>str\<close>.
\<close>

datatype raisable = RaiseExc exc_class string | RaiseStr string

text \<open>
  \<^verbatim>\<open>raise x\<close> outside of any handler: a fresh exception has neither cause nor
  context.
\<close>

fun py_raise :: "raisable \<Rightarrow> py_exc" where
  "py_raise (RaiseExc c m) = PyExc c m None None"
| "py_raise (RaiseStr s) =
     PyExc TypeError ''exceptions must derive from BaseException'' None None"

text \<open>
  \<^verbatim>\<open>raise x from cause\<close> executed inside the handler of \<open>handled\<close>. The interpreter
  first checks that \<open>x\<close> is an exception; if it is not, it raises the
  \<^verbatim>\<open>TypeError\<close> before the cause is looked at, so only the implicit
  \<^verbatim>\<open>__context__\<close> is set.
\<close>

fun py_raise_from :: "raisable \<Rightarrow> py_exc \<Rightarrow> py_exc \<Rightarrow> py_exc" where
  "py_raise_from (RaiseExc c m) cause handled = PyExc c m (Some cause) (Some handled)"
| "py_raise_from (RaiseStr s) cause handled =
     PyExc TypeError ''exceptions must derive from BaseException'' None (Some handled)"

text \<open>
  A \<^verbatim>\<open>Dict[str, str]\<close> keeps its items in insertion order and has no two items
  with the same key: an association list whose keys are distinct.
\<close>

type_synonym py_dict = "(string \<times> string) list"

definition is_dict :: "py_dict \<Rightarrow> bool" where
  "is_dict d = distinct (map fst d)"

text \<open>\<^verbatim>\<open>d[k] = v\<close>: an existing key keeps its place, a new key goes last.\<close>

fun setitem :: "py_dict \<Rightarrow> string \<Rightarrow> string \<Rightarrow> py_dict" where
  "setitem [] k v = [(k, v)]"
| "setitem (p # ps) k v = (if fst p = k then (k, v) # ps else p # setitem ps k v)"

text \<open>\<^verbatim>\<open>d.items()\<close>: the items in insertion order.\<close>

definition items :: "py_dict \<Rightarrow> (string \<times> string) list" where
  "items d = d"

text \<open>
  What a caller may pass as \<^verbatim>\<open>args\<close>: the annotation asks for a dict, Python does
  not enforce it.
\<close>

datatype py_value =
  PyDict py_dict | PyNone | PyStr string | PyInt int | PyList "string list"

fun isinstance_dict :: "py_value \<Rightarrow> bool" where
  "isinstance_dict (PyDict d) = True"
| "isinstance_dict v = False"

text \<open>\<^verbatim>\<open>str(n)\<close> for an \<^verbatim>\<open>int\<close>, which is what \<^verbatim>\<open>f'{n}'\<close> formats.\<close>

definition digit_char :: "nat \<Rightarrow> char" where
  "digit_char d = ''0123456789'' ! d"

fun str_nat :: "nat \<Rightarrow> string" where
  "str_nat n = (if n < 10 then [digit_char n] else str_nat (n div 10) @ [digit_char (n mod 10)])"

definition str_int :: "int \<Rightarrow> string" where
  "str_int i = (if i < 0 then CHR ''-'' # str_nat (nat (- i)) else str_nat (nat i))"

text \<open>\<^verbatim>\<open>sep.join(xs)\<close>.\<close>

fun join :: "string \<Rightarrow> string list \<Rightarrow> string" where
  "join sep [] = []"
| "join sep [x] = x"
| "join sep (x # y # ys) = x @ sep @ join sep (y # ys)"

definition newline :: string where
  "newline = [CHR 0x0A]"

section \<open>Messages of the Communicate service\<close>

text \<open>
  Modelled from the spec: the generated modules \<^verbatim>\<open>service_coordinator_pb2\<close> and
  \<^verbatim>\<open>service_coordinator_pb2_grpc\<close> are not part of the sources; the message shapes
  are those of the RPC surface, with the field names the client reads and writes.
  \<^verbatim>\<open>args[]\<close> is a sequence of key/value pairs of strings.
\<close>

datatype rpc_request =
  InformPreviousServiceInfoRequest string string string string "(string \<times> string) list"
| InformCurrentServiceInfoRequest string "(string \<times> string) list"
| StartRequest string
| StopRequest string

fun request_args :: "rpc_request \<Rightarrow> (string \<times> string) list" where
  "request_args (InformPreviousServiceInfoRequest t n i p a) = a"
| "request_args (InformCurrentServiceInfoRequest t a) = a"
| "request_args (StartRequest t) = []"
| "request_args (StopRequest t) = []"

record ResponseStatus =
  code :: int
  message :: string

record StatusResponse =
  response :: ResponseStatus

record InformCurrentServiceInfoResponse = StatusResponse +
  args :: "(string \<times> string) list"

text \<open>
  The stub is the RPC substrate: each method takes the request and the state of the
  remote side, and either raises or returns a response, with the new remote state.
\<close>

record 's CommunicateStub =
  informPreviousServiceInfo ::
    "rpc_request \<Rightarrow> 's \<Rightarrow> (py_exc + StatusResponse) \<times> 's"
  informCurrentServiceInfo ::
    "rpc_request \<Rightarrow> 's \<Rightarrow> (py_exc + InformCurrentServiceInfoResponse) \<times> 's"
  stub_start :: "rpc_request \<Rightarrow> 's \<Rightarrow> (py_exc + StatusResponse) \<times> 's"
  stub_stop :: "rpc_request \<Rightarrow> 's \<Rightarrow> (py_exc + StatusResponse) \<times> 's"

text \<open>
  The channel: its target, the state of the remote side, and the requests that went
  over it, oldest first.
\<close>

record 's channel =
  target :: string
  remote :: 's
  calls :: "rpc_request list"

section \<open>The client\<close>

record 's ServiceCoordinatorClient =
  name :: string
  ip :: string
  port :: int
  conn :: "'s channel"
  client :: "'s CommunicateStub"

text \<open>
  \<^verbatim>\<open>__init__(self, name, ip, port)\<close>. The stub's behaviour and the initial state of
  the remote side are what \<^verbatim>\<open>grpc.insecure_channel\<close> connects to.
\<close>

definition init ::
  "string \<Rightarrow> string \<Rightarrow> int \<Rightarrow> 's CommunicateStub \<Rightarrow> 's \<Rightarrow> 's ServiceCoordinatorClient" where
  "init name' ip' port' stub remote0 =
     \<lparr> name = name', ip = ip', port = port',
       conn = \<lparr> target = ip' @ '':'' @ str_int port', remote = remote0, calls = [] \<rparr>,
       client = stub \<rparr>"

text \<open>One invocation of a stub method: the request is sent, the remote side moves on.\<close>

definition invoke ::
  "(rpc_request \<Rightarrow> 's \<Rightarrow> (py_exc + 'r) \<times> 's) \<Rightarrow> rpc_request \<Rightarrow> 's ServiceCoordinatorClient
     \<Rightarrow> (py_exc + 'r) \<times> 's ServiceCoordinatorClient" where
  "invoke method request self =
     (let (outcome, remote') = method request (remote (conn self))
      in (outcome,
          self\<lparr> conn := (conn self)\<lparr> remote := remote', calls := calls (conn self) @ [request] \<rparr> \<rparr>))"

text \<open>The default of the parameter \<^verbatim>\<open>args\<close> is \<^verbatim>\<open>{}\<close>; no method writes to it.\<close>

fun args_param :: "py_value option \<Rightarrow> py_value" where
  "args_param None = PyDict []"
| "args_param (Some v) = v"

text \<open>
  \<^verbatim>\<open>if isinstance(args, dict): for key, value in args.items(): request.args.add() ...\<close>
\<close>

fun add_args :: "py_value \<Rightarrow> (string \<times> string) list" where
  "add_args (PyDict d) = items d"
| "add_args v = []"

text \<open>The \<^verbatim>\<open>except grpc.RpcError as e\<close> clause shared by the four methods.\<close>

definition except_RpcError :: "string \<Rightarrow> py_exc \<Rightarrow> py_exc" where
  "except_RpcError method e =
     (if issubclass (exc_class e) RpcError
      then py_raise_from
             (RaiseStr (''gRPC error in '' @ method @ '': '' @ newline @ exc_message e)) e e
      else e)"

definition current_service_info :: "'s ServiceCoordinatorClient \<Rightarrow> string list" where
  "current_service_info self =
     [''Current Service Info:'',
      ''   name: '' @ name self,
      ''   ip:   '' @ ip self,
      ''   port: '' @ str_int (port self)]"

definition inform_previous_service_info ::
  "'s ServiceCoordinatorClient \<Rightarrow> string \<Rightarrow> string \<Rightarrow> string \<Rightarrow> string \<Rightarrow> py_value option
     \<Rightarrow> (py_exc + unit) \<times> 's ServiceCoordinatorClient" where
  "inform_previous_service_info self task_id pre_service_name pre_service_ip pre_service_port args' =
     (let request = InformPreviousServiceInfoRequest task_id pre_service_name pre_service_ip
                      pre_service_port (add_args (args_param args'));
          (outcome, self') = invoke (informPreviousServiceInfo (client self)) request self
      in case outcome of
           Inl e \<Rightarrow> (Inl (except_RpcError ''inform_previous_service_info'' e), self')
         | Inr r \<Rightarrow>
             if code (response r) \<noteq> 200
             then (Inl (py_raise (RaiseExc Exception (join newline
                     ([''Failed to inform previous service info'',
                       ''Task ID: '' @ task_id,
                       ''Previous Service Info:'',
                       ''   name: '' @ pre_service_name,
                       ''   ip:   '' @ pre_service_ip,
                       ''   port: '' @ pre_service_port]
                      @ current_service_info self
                      @ [''Error:'', message (response r)])))), self')
             else (Inr (), self'))"

text \<open>
  The loop \<^verbatim>\<open>for arg in response.args: args_output[arg.key] = arg.value\<close>, from the
  dict built so far.
\<close>

fun extract_args :: "py_dict \<Rightarrow> (string \<times> string) list \<Rightarrow> py_dict" where
  "extract_args args_output [] = args_output"
| "extract_args args_output (arg # rest) =
     extract_args (setitem args_output (fst arg) (snd arg)) rest"

definition inform_current_service_info ::
  "'s ServiceCoordinatorClient \<Rightarrow> string \<Rightarrow> py_value option
     \<Rightarrow> (py_exc + py_dict) \<times> 's ServiceCoordinatorClient" where
  "inform_current_service_info self task_id args' =
     (let request = InformCurrentServiceInfoRequest task_id (add_args (args_param args'));
          (outcome, self') = invoke (informCurrentServiceInfo (client self)) request self
      in case outcome of
           Inl e \<Rightarrow> (Inl (except_RpcError ''inform_current_service_info'' e), self')
         | Inr r \<Rightarrow>
             if code (response r) \<noteq> 200
             then (Inl (py_raise (RaiseExc Exception (join newline
                     ([''Failed to inform current service info'',
                       ''Task ID: '' @ task_id]
                      @ current_service_info self
                      @ [''Error:'', message (response r)])))), self')
             else (Inr (extract_args [] (args r)), self'))"

definition start ::
  "'s ServiceCoordinatorClient \<Rightarrow> string \<Rightarrow> (py_exc + unit) \<times> 's ServiceCoordinatorClient" where
  "start self task_id =
     (let request = StartRequest task_id;
          (outcome, self') = invoke (stub_start (client self)) request self
      in case outcome of
           Inl e \<Rightarrow> (Inl (except_RpcError ''start'' e), self')
         | Inr r \<Rightarrow>
             if code (response r) \<noteq> 200
             then (Inl (py_raise (RaiseExc Exception (join newline
                     ([''Failed to start the service'',
                       ''Task ID: '' @ task_id]
                      @ current_service_info self
                      @ [''Error:'', message (response r)])))), self')
             else (Inr (), self'))"

definition stop ::
  "'s ServiceCoordinatorClient \<Rightarrow> string \<Rightarrow> (py_exc + unit) \<times> 's ServiceCoordinatorClient" where
  "stop self task_id =
     (let request = StopRequest task_id;
          (outcome, self') = invoke (stub_stop (client self)) request self
      in case outcome of
           Inl e \<Rightarrow> (Inl (except_RpcError ''stop'' e), self')
         | Inr r \<Rightarrow>
             if code (response r) \<noteq> 200
             then (Inl (py_raise (RaiseExc Exception (join newline
                     ([''Failed to stop the service'',
                       ''Task ID: '' @ task_id]
                      @ current_service_info self
                      @ [''Error:'', message (response r)])))), self')
             else (Inr (), self'))"

text \<open>\<^verbatim>\<open>d.get(k)\<close>: the value stored under a key, if there is one.\<close>

definition dict_get :: "py_dict \<Rightarrow> string \<Rightarrow> string option" where
  "dict_get d k = map_of d k"

section \<open>Vocabulary of the properties\<close>

text \<open>What the substrate does with a request sent by \<open>self\<close>: it answers, or it raises.\<close>

definition returns ::
  "(rpc_request \<Rightarrow> 's \<Rightarrow> (py_exc + 'r) \<times> 's) \<Rightarrow> rpc_request \<Rightarrow> 's ServiceCoordinatorClient
     \<Rightarrow> 'r \<Rightarrow> bool" where
  "returns method request self r = (fst (method request (remote (conn self))) = Inr r)"

definition raises ::
  "(rpc_request \<Rightarrow> 's \<Rightarrow> (py_exc + 'r) \<times> 's) \<Rightarrow> rpc_request \<Rightarrow> 's ServiceCoordinatorClient
     \<Rightarrow> py_exc \<Rightarrow> bool" where
  "raises method request self e = (fst (method request (remote (conn self))) = Inl e)"

text \<open>
  The outcome of a call is an exception of class \<^verbatim>\<open>Exception\<close> itself, raised
  outside of any handler, whose message contains each of the given texts.
\<close>

fun protocol_error :: "py_exc + 'a \<Rightarrow> string list \<Rightarrow> bool" where
  "protocol_error (Inl e) parts =
     (exc_class e = Exception \<and> exc_cause e = None \<and> exc_context e = None \<and>
      list_all (\<lambda>p. sublist p (exc_message e)) parts)"
| "protocol_error (Inr x) parts = False"

text \<open>What a call hands back to its caller, when it hands back anything.\<close>

fun returned :: "py_exc + 'a \<Rightarrow> 'a option" where
  "returned (Inl e) = None"
| "returned (Inr x) = Some x"

text \<open>
  Two coordinators for concrete runs. The first answers every request with a fixed
  status, and every inform-current request with fixed arguments as well, counting the
  requests it has served; the second cannot be reached.
\<close>

definition answering :: "ResponseStatus \<Rightarrow> (string \<times> string) list \<Rightarrow> nat CommunicateStub" where
  "answering st injected =
     \<lparr> informPreviousServiceInfo = (\<lambda>request n. (Inr \<lparr> response = st \<rparr>, Suc n)),
       informCurrentServiceInfo = (\<lambda>request n. (Inr \<lparr> response = st, args = injected \<rparr>, Suc n)),
       stub_start = (\<lambda>request n. (Inr \<lparr> response = st \<rparr>, Suc n)),
       stub_stop = (\<lambda>request n. (Inr \<lparr> response = st \<rparr>, Suc n)) \<rparr>"

definition unreachable :: "py_exc \<Rightarrow> nat CommunicateStub" where
  "unreachable e =
     \<lparr> informPreviousServiceInfo = (\<lambda>request n. (Inl e, n)),
       informCurrentServiceInfo = (\<lambda>request n. (Inl e, n)),
       stub_start = (\<lambda>request n. (Inl e, n)),
       stub_stop = (\<lambda>request n. (Inl e, n)) \<rparr>"

section \<open>Dicts and joined lines\<close>

lemma map_of_setitem: "map_of (setitem d k v) = (map_of d)(k \<mapsto> v)"
  by (induction d) (auto simp: fun_eq_iff)

lemma keys_setitem: "fst ` set (setitem d k v) = insert k (fst ` set d)"
  by (induction d) auto

lemma is_dict_setitem: "is_dict d \<Longrightarrow> is_dict (setitem d k v)"
  unfolding is_dict_def
proof (induction d)
  case Nil
  then show ?case by simp
next
  case (Cons p ps)
  then show ?case using keys_setitem[of ps k v] by auto
qed

lemma is_dict_extract_args: "is_dict d \<Longrightarrow> is_dict (extract_args d xs)"
  by (induction xs arbitrary: d) (simp_all add: is_dict_setitem)

lemma keys_extract_args: "fst ` set (extract_args d xs) = fst ` set d \<union> fst ` set xs"
  by (induction xs arbitrary: d) (auto simp: keys_setitem)

lemma map_of_extract_args: "map_of (extract_args d xs) = map_of d ++ map_of (rev xs)"
proof (induction xs arbitrary: d)
  case Nil
  then show ?case by simp
next
  case (Cons a xs)
  obtain k v where a: "a = (k, v)" by (cases a)
  show ?case
    by (simp add: Cons.IH map_of_setitem a fun_eq_iff map_add_def split: option.splits)
qed

lemma setitem_fresh: "k \<notin> fst ` set d \<Longrightarrow> setitem d k v = d @ [(k, v)]"
  by (induction d) auto

lemma extract_args_distinct:
  "distinct (map fst (d @ xs)) \<Longrightarrow> extract_args d xs = d @ xs"
proof (induction xs arbitrary: d)
  case Nil
  then show ?case by simp
next
  case (Cons a xs)
  obtain k v where a: "a = (k, v)" by (cases a)
  from Cons.prems a have fresh: "k \<notin> fst ` set d" by auto
  from Cons.prems a have "distinct (map fst ((d @ [(k, v)]) @ xs))" by auto
  then have "extract_args (d @ [(k, v)]) xs = (d @ [(k, v)]) @ xs" by (rule Cons.IH)
  then show ?case using fresh by (simp add: a setitem_fresh)
qed

lemma embedded_in_join:
  "l \<in> set ls \<Longrightarrow> sublist s l \<Longrightarrow> sublist s (join sep ls)"
proof (induction sep ls rule: join.induct)
  case (1 sep)
  then show ?case by simp
next
  case (2 sep x)
  then show ?case by simp
next
  case (3 sep x y ys)
  show ?case
  proof (cases "l = x")
    case True
    with 3 show ?thesis by (simp add: sublist_append)
  next
    case False
    with 3 have "sublist s (join sep (y # ys))" by simp
    then show ?thesis by (simp add: sublist_append)
  qed
qed

section \<open>What each method does with the outcome of its one RPC\<close>

lemma fst_invoke: "fst (invoke method request self) = fst (method request (remote (conn self)))"
  by (simp add: invoke_def split: prod.splits)

lemma snd_invoke:
  "snd (invoke method request self) =
     self\<lparr> conn := (conn self)\<lparr> remote := snd (method request (remote (conn self))),
                               calls := calls (conn self) @ [request] \<rparr> \<rparr>"
  by (simp add: invoke_def split: prod.splits)


lemma snd_inform_previous_service_info:
  "snd (inform_previous_service_info self t n i p a) =
     snd (invoke (informPreviousServiceInfo (client self))
            (InformPreviousServiceInfoRequest t n i p (add_args (args_param a))) self)"
  by (simp add: inform_previous_service_info_def Let_def split: prod.splits sum.splits)

lemma snd_inform_current_service_info:
  "snd (inform_current_service_info self t a) =
     snd (invoke (informCurrentServiceInfo (client self))
            (InformCurrentServiceInfoRequest t (add_args (args_param a))) self)"
  by (simp add: inform_current_service_info_def Let_def split: prod.splits sum.splits)

lemma snd_start:
  "snd (start self t) = snd (invoke (stub_start (client self)) (StartRequest t) self)"
  by (simp add: start_def Let_def split: prod.splits sum.splits)

lemma snd_stop:
  "snd (stop self t) = snd (invoke (stub_stop (client self)) (StopRequest t) self)"
  by (simp add: stop_def Let_def split: prod.splits sum.splits)

lemma inform_previous_service_info_outcome:
  assumes "returns (informPreviousServiceInfo (client self))
             (InformPreviousServiceInfoRequest t n i p (add_args (args_param a))) self r"
  shows "fst (inform_previous_service_info self t n i p a) =
     (if code (response r) \<noteq> 200
      then Inl (PyExc Exception (join newline
             ([''Failed to inform previous service info'',
               ''Task ID: '' @ t,
               ''Previous Service Info:'',
               ''   name: '' @ n,
               ''   ip:   '' @ i,
               ''   port: '' @ p]
              @ current_service_info self
              @ [''Error:'', message (response r)])) None None)
      else Inr ())"
proof -
  obtain outcome self' where inv:
    "invoke (informPreviousServiceInfo (client self)) (InformPreviousServiceInfoRequest t n i p (add_args (args_param a))) self = (outcome, self')"
    by (cases "invoke (informPreviousServiceInfo (client self)) (InformPreviousServiceInfoRequest t n i p (add_args (args_param a))) self")
  have "fst (invoke (informPreviousServiceInfo (client self)) (InformPreviousServiceInfoRequest t n i p (add_args (args_param a))) self) = Inr r"
    using assms by (simp add: fst_invoke returns_def)
  with inv have "outcome = Inr r" by simp
  with inv show ?thesis by (simp add: inform_previous_service_info_def)
qed

lemma inform_previous_service_info_accepted:
  assumes "returns (informPreviousServiceInfo (client self))
             (InformPreviousServiceInfoRequest t n i p (add_args (args_param a))) self r"
    and "code (response r) = 200"
  shows "fst (inform_previous_service_info self t n i p a) = Inr ()"
  unfolding inform_previous_service_info_outcome[OF assms(1)] using assms(2) by simp

lemma inform_previous_service_info_rejected:
  assumes "returns (informPreviousServiceInfo (client self))
             (InformPreviousServiceInfoRequest t n i p (add_args (args_param a))) self r"
    and "code (response r) \<noteq> 200"
  shows "fst (inform_previous_service_info self t n i p a) =
     Inl (PyExc Exception (join newline
             ([''Failed to inform previous service info'',
               ''Task ID: '' @ t,
               ''Previous Service Info:'',
               ''   name: '' @ n,
               ''   ip:   '' @ i,
               ''   port: '' @ p]
              @ current_service_info self
              @ [''Error:'', message (response r)])) None None)"
  unfolding inform_previous_service_info_outcome[OF assms(1)] using assms(2) by (rule if_P)

lemma inform_current_service_info_outcome:
  assumes "returns (informCurrentServiceInfo (client self))
             (InformCurrentServiceInfoRequest t (add_args (args_param a))) self r"
  shows "fst (inform_current_service_info self t a) =
     (if code (response r) \<noteq> 200
      then Inl (PyExc Exception (join newline
             ([''Failed to inform current service info'',
               ''Task ID: '' @ t]
              @ current_service_info self
              @ [''Error:'', message (response r)])) None None)
      else Inr (extract_args [] (args r)))"
proof -
  obtain outcome self' where inv:
    "invoke (informCurrentServiceInfo (client self)) (InformCurrentServiceInfoRequest t (add_args (args_param a))) self = (outcome, self')"
    by (cases "invoke (informCurrentServiceInfo (client self)) (InformCurrentServiceInfoRequest t (add_args (args_param a))) self")
  have "fst (invoke (informCurrentServiceInfo (client self)) (InformCurrentServiceInfoRequest t (add_args (args_param a))) self) = Inr r"
    using assms by (simp add: fst_invoke returns_def)
  with inv have "outcome = Inr r" by simp
  with inv show ?thesis by (simp add: inform_current_service_info_def)
qed

lemma inform_current_service_info_accepted:
  assumes "returns (informCurrentServiceInfo (client self))
             (InformCurrentServiceInfoRequest t (add_args (args_param a))) self r"
    and "code (response r) = 200"
  shows "fst (inform_current_service_info self t a) = Inr (extract_args [] (args r))"
  unfolding inform_current_service_info_outcome[OF assms(1)] using assms(2) by simp

lemma inform_current_service_info_rejected:
  assumes "returns (informCurrentServiceInfo (client self))
             (InformCurrentServiceInfoRequest t (add_args (args_param a))) self r"
    and "code (response r) \<noteq> 200"
  shows "fst (inform_current_service_info self t a) =
     Inl (PyExc Exception (join newline
             ([''Failed to inform current service info'',
               ''Task ID: '' @ t]
              @ current_service_info self
              @ [''Error:'', message (response r)])) None None)"
  unfolding inform_current_service_info_outcome[OF assms(1)] using assms(2) by (rule if_P)

lemma start_outcome:
  assumes "returns (stub_start (client self))
             (StartRequest t) self r"
  shows "fst (start self t) =
     (if code (response r) \<noteq> 200
      then Inl (PyExc Exception (join newline
             ([''Failed to start the service'',
               ''Task ID: '' @ t]
              @ current_service_info self
              @ [''Error:'', message (response r)])) None None)
      else Inr ())"
proof -
  obtain outcome self' where inv:
    "invoke (stub_start (client self)) (StartRequest t) self = (outcome, self')"
    by (cases "invoke (stub_start (client self)) (StartRequest t) self")
  have "fst (invoke (stub_start (client self)) (StartRequest t) self) = Inr r"
    using assms by (simp add: fst_invoke returns_def)
  with inv have "outcome = Inr r" by simp
  with inv show ?thesis by (simp add: start_def)
qed

lemma start_accepted:
  assumes "returns (stub_start (client self))
             (StartRequest t) self r"
    and "code (response r) = 200"
  shows "fst (start self t) = Inr ()"
  unfolding start_outcome[OF assms(1)] using assms(2) by simp

lemma start_rejected:
  assumes "returns (stub_start (client self))
             (StartRequest t) self r"
    and "code (response r) \<noteq> 200"
  shows "fst (start self t) =
     Inl (PyExc Exception (join newline
             ([''Failed to start the service'',
               ''Task ID: '' @ t]
              @ current_service_info self
              @ [''Error:'', message (response r)])) None None)"
  unfolding start_outcome[OF assms(1)] using assms(2) by (rule if_P)

lemma stop_outcome:
  assumes "returns (stub_stop (client self))
             (StopRequest t) self r"
  shows "fst (stop self t) =
     (if code (response r) \<noteq> 200
      then Inl (PyExc Exception (join newline
             ([''Failed to stop the service'',
               ''Task ID: '' @ t]
              @ current_service_info self
              @ [''Error:'', message (response r)])) None None)
      else Inr ())"
proof -
  obtain outcome self' where inv:
    "invoke (stub_stop (client self)) (StopRequest t) self = (outcome, self')"
    by (cases "invoke (stub_stop (client self)) (StopRequest t) self")
  have "fst (invoke (stub_stop (client self)) (StopRequest t) self) = Inr r"
    using assms by (simp add: fst_invoke returns_def)
  with inv have "outcome = Inr r" by simp
  with inv show ?thesis by (simp add: stop_def)
qed

lemma stop_accepted:
  assumes "returns (stub_stop (client self))
             (StopRequest t) self r"
    and "code (response r) = 200"
  shows "fst (stop self t) = Inr ()"
  unfolding stop_outcome[OF assms(1)] using assms(2) by simp

lemma stop_rejected:
  assumes "returns (stub_stop (client self))
             (StopRequest t) self r"
    and "code (response r) \<noteq> 200"
  shows "fst (stop self t) =
     Inl (PyExc Exception (join newline
             ([''Failed to stop the service'',
               ''Task ID: '' @ t]
              @ current_service_info self
              @ [''Error:'', message (response r)])) None None)"
  unfolding stop_outcome[OF assms(1)] using assms(2) by (rule if_P)

lemma line_in_join: "l \<in> set ls \<Longrightarrow> sublist l (join sep ls)"
  using embedded_in_join[of l ls l sep] by simp

lemma protocol_error_join:
  "set parts \<subseteq> set ls \<Longrightarrow> protocol_error (Inl (PyExc Exception (join sep ls) None None)) parts"
  by (auto simp: list_all_iff intro: line_in_join)

lemma calls_invoke:
  "calls (conn (snd (invoke method request self))) = calls (conn self) @ [request]"
  by (simp add: snd_invoke)

lemma identity_invoke:
  "name (snd (invoke method request self)) = name self \<and>
   ip (snd (invoke method request self)) = ip self \<and>
   port (snd (invoke method request self)) = port self"
  by (simp add: snd_invoke)

section \<open>The claims\<close>

text \<open>
  C1. Whenever the coordinator answers a call with a status code other than 200, the
  client raises an exception (of class \<^verbatim>\<open>Exception\<close>, raised outside of any handler)
  whose message contains the task id, the client's own name, ip and port and the
  server's message, each on its labelled line; for inform-previous it also contains the
  predecessor's name, ip and port. Whenever the status code is 200, none of the four
  methods raises.
\<close>

theorem protocol_error_iff_not_200:
  "(returns (informPreviousServiceInfo (client self))
      (InformPreviousServiceInfoRequest t n i p (add_args (args_param a))) self r1 \<longrightarrow>
      (code (response r1) = 200 \<longrightarrow>
         \<not> isl (fst (inform_previous_service_info self t n i p a))) \<and>
      (code (response r1) \<noteq> 200 \<longrightarrow>
         protocol_error (fst (inform_previous_service_info self t n i p a))
           [''Task ID: '' @ t,
            ''   name: '' @ n, ''   ip:   '' @ i, ''   port: '' @ p,
            ''   name: '' @ name self, ''   ip:   '' @ ip self,
            ''   port: '' @ str_int (port self),
            message (response r1)])) \<and>
   (returns (informCurrentServiceInfo (client self))
      (InformCurrentServiceInfoRequest t (add_args (args_param a))) self r2 \<longrightarrow>
      (code (response r2) = 200 \<longrightarrow>
         \<not> isl (fst (inform_current_service_info self t a))) \<and>
      (code (response r2) \<noteq> 200 \<longrightarrow>
         protocol_error (fst (inform_current_service_info self t a))
           [''Task ID: '' @ t,
            ''   name: '' @ name self, ''   ip:   '' @ ip self,
            ''   port: '' @ str_int (port self),
            message (response r2)])) \<and>
   (returns (stub_start (client self)) (StartRequest t) self r3 \<longrightarrow>
      (code (response r3) = 200 \<longrightarrow> \<not> isl (fst (start self t))) \<and>
      (code (response r3) \<noteq> 200 \<longrightarrow>
         protocol_error (fst (start self t))
           [''Task ID: '' @ t,
            ''   name: '' @ name self, ''   ip:   '' @ ip self,
            ''   port: '' @ str_int (port self),
            message (response r3)])) \<and>
   (returns (stub_stop (client self)) (StopRequest t) self r4 \<longrightarrow>
      (code (response r4) = 200 \<longrightarrow> \<not> isl (fst (stop self t))) \<and>
      (code (response r4) \<noteq> 200 \<longrightarrow>
         protocol_error (fst (stop self t))
           [''Task ID: '' @ t,
            ''   name: '' @ name self, ''   ip:   '' @ ip self,
            ''   port: '' @ str_int (port self),
            message (response r4)]))"
proof (intro conjI impI)
  assume ret: "returns (informPreviousServiceInfo (client self))
      (InformPreviousServiceInfoRequest t n i p (add_args (args_param a))) self r1"
  { assume "code (response r1) = 200"
    then show "\<not> isl (fst (inform_previous_service_info self t n i p a))"
      by (simp add: inform_previous_service_info_accepted[OF ret]) }
  { assume "code (response r1) \<noteq> 200"
    then show "protocol_error (fst (inform_previous_service_info self t n i p a))
           [''Task ID: '' @ t,
            ''   name: '' @ n, ''   ip:   '' @ i, ''   port: '' @ p,
            ''   name: '' @ name self, ''   ip:   '' @ ip self,
            ''   port: '' @ str_int (port self),
            message (response r1)]"
      unfolding inform_previous_service_info_rejected[OF ret \<open>code (response r1) \<noteq> 200\<close>]
      by (intro protocol_error_join) (simp add: current_service_info_def) }
next
  assume ret: "returns (informCurrentServiceInfo (client self))
      (InformCurrentServiceInfoRequest t (add_args (args_param a))) self r2"
  { assume "code (response r2) = 200"
    then show "\<not> isl (fst (inform_current_service_info self t a))"
      by (simp add: inform_current_service_info_accepted[OF ret]) }
  { assume "code (response r2) \<noteq> 200"
    then show "protocol_error (fst (inform_current_service_info self t a))
           [''Task ID: '' @ t,
            ''   name: '' @ name self, ''   ip:   '' @ ip self,
            ''   port: '' @ str_int (port self),
            message (response r2)]"
      unfolding inform_current_service_info_rejected[OF ret \<open>code (response r2) \<noteq> 200\<close>]
      by (intro protocol_error_join) (simp add: current_service_info_def) }
next
  assume ret: "returns (stub_start (client self))
      (StartRequest t) self r3"
  { assume "code (response r3) = 200"
    then show "\<not> isl (fst (start self t))"
      by (simp add: start_accepted[OF ret]) }
  { assume "code (response r3) \<noteq> 200"
    then show "protocol_error (fst (start self t))
           [''Task ID: '' @ t,
            ''   name: '' @ name self, ''   ip:   '' @ ip self,
            ''   port: '' @ str_int (port self),
            message (response r3)]"
      unfolding start_rejected[OF ret \<open>code (response r3) \<noteq> 200\<close>]
      by (intro protocol_error_join) (simp add: current_service_info_def) }
next
  assume ret: "returns (stub_stop (client self))
      (StopRequest t) self r4"
  { assume "code (response r4) = 200"
    then show "\<not> isl (fst (stop self t))"
      by (simp add: stop_accepted[OF ret]) }
  { assume "code (response r4) \<noteq> 200"
    then show "protocol_error (fst (stop self t))
           [''Task ID: '' @ t,
            ''   name: '' @ name self, ''   ip:   '' @ ip self,
            ''   port: '' @ str_int (port self),
            message (response r4)]"
      unfolding stop_rejected[OF ret \<open>code (response r4) \<noteq> 200\<close>]
      by (intro protocol_error_join) (simp add: current_service_info_def) }
qed

theorem protocol_error_iff_not_200_witness:
  "protocol_error
     (fst (inform_previous_service_info
            (init ''B'' ''10.0.0.2'' 9001 (answering \<lparr>code = 409, message = ''CONFLICT''\<rparr> []) 0)
            ''t1'' ''A'' ''10.0.0.1'' ''9000'' None))
     [''Task ID: t1'', ''   name: A'', ''   ip:   10.0.0.1'', ''   port: 9000'',
      ''   name: B'', ''   ip:   10.0.0.2'', ''   port: 9001'', ''CONFLICT''] \<and>
   protocol_error
     (fst (inform_current_service_info
            (init ''B'' ''10.0.0.2'' 9001 (answering \<lparr>code = 409, message = ''CONFLICT''\<rparr> []) 0)
            ''t1'' None))
     [''Task ID: t1'', ''   name: B'', ''   ip:   10.0.0.2'', ''   port: 9001'', ''CONFLICT''] \<and>
   protocol_error
     (fst (start
            (init ''B'' ''10.0.0.2'' 9001 (answering \<lparr>code = 409, message = ''CONFLICT''\<rparr> []) 0)
            ''t1''))
     [''Task ID: t1'', ''   name: B'', ''   ip:   10.0.0.2'', ''   port: 9001'', ''CONFLICT''] \<and>
   protocol_error
     (fst (stop
            (init ''B'' ''10.0.0.2'' 9001 (answering \<lparr>code = 409, message = ''CONFLICT''\<rparr> []) 0)
            ''t1''))
     [''Task ID: t1'', ''   name: B'', ''   ip:   10.0.0.2'', ''   port: 9001'', ''CONFLICT''] \<and>
   \<not> isl (fst (inform_previous_service_info
            (init ''B'' ''10.0.0.2'' 9001 (answering \<lparr>code = 200, message = ''OK''\<rparr> []) 0)
            ''t1'' ''A'' ''10.0.0.1'' ''9000'' None)) \<and>
   \<not> isl (fst (inform_current_service_info
            (init ''B'' ''10.0.0.2'' 9001 (answering \<lparr>code = 200, message = ''OK''\<rparr> []) 0)
            ''t1'' None)) \<and>
   \<not> isl (fst (start
            (init ''B'' ''10.0.0.2'' 9001 (answering \<lparr>code = 200, message = ''OK''\<rparr> []) 0)
            ''t1'')) \<and>
   \<not> isl (fst (stop
            (init ''B'' ''10.0.0.2'' 9001 (answering \<lparr>code = 200, message = ''OK''\<rparr> []) 0)
            ''t1''))"
  using
    protocol_error_iff_not_200
      [of "init ''B'' ''10.0.0.2'' 9001 (answering \<lparr>code = 409, message = ''CONFLICT''\<rparr> []) 0"
          "''t1''" "''A''" "''10.0.0.1''" "''9000''" None
          "\<lparr>response = \<lparr>code = 409, message = ''CONFLICT''\<rparr>\<rparr>"
          "\<lparr>response = \<lparr>code = 409, message = ''CONFLICT''\<rparr>, args = []\<rparr>"
          "\<lparr>response = \<lparr>code = 409, message = ''CONFLICT''\<rparr>\<rparr>"
          "\<lparr>response = \<lparr>code = 409, message = ''CONFLICT''\<rparr>\<rparr>"]
    protocol_error_iff_not_200
      [of "init ''B'' ''10.0.0.2'' 9001 (answering \<lparr>code = 200, message = ''OK''\<rparr> []) 0"
          "''t1''" "''A''" "''10.0.0.1''" "''9000''" None
          "\<lparr>response = \<lparr>code = 200, message = ''OK''\<rparr>\<rparr>"
          "\<lparr>response = \<lparr>code = 200, message = ''OK''\<rparr>, args = []\<rparr>"
          "\<lparr>response = \<lparr>code = 200, message = ''OK''\<rparr>\<rparr>"
          "\<lparr>response = \<lparr>code = 200, message = ''OK''\<rparr>\<rparr>"]
  by (simp add: returns_def answering_def init_def str_int_def digit_char_def)

lemma dict_get_extract_args: "dict_get (extract_args [] xs) = map_of (rev xs)"
  by (simp add: dict_get_def map_of_extract_args fun_eq_iff)

lemma is_dict_extract_args_empty: "is_dict (extract_args [] xs)"
  by (rule is_dict_extract_args) (simp add: is_dict_def)

text \<open>
  C3. When the coordinator answers with status code 200, inform-current returns the
  dict built from the pairs of the response's \<^verbatim>\<open>args\<close>: a dict whose keys are the
  keys listed there, each bound to the value of its (last) pair. The three other methods
  return nothing but success.
\<close>

theorem success_results:
  "(returns (informCurrentServiceInfo (client self))
      (InformCurrentServiceInfoRequest t (add_args (args_param a))) self r2 \<longrightarrow>
    code (response r2) = 200 \<longrightarrow>
      fst (inform_current_service_info self t a) = Inr (extract_args [] (args r2)) \<and>
      is_dict (extract_args [] (args r2)) \<and>
      fst ` set (extract_args [] (args r2)) = fst ` set (args r2) \<and>
      dict_get (extract_args [] (args r2)) = map_of (rev (args r2))) \<and>
   (returns (informPreviousServiceInfo (client self))
      (InformPreviousServiceInfoRequest t n i p (add_args (args_param a))) self r1 \<longrightarrow>
    code (response r1) = 200 \<longrightarrow>
      fst (inform_previous_service_info self t n i p a) = Inr ()) \<and>
   (returns (stub_start (client self)) (StartRequest t) self r3 \<longrightarrow>
    code (response r3) = 200 \<longrightarrow> fst (start self t) = Inr ()) \<and>
   (returns (stub_stop (client self)) (StopRequest t) self r4 \<longrightarrow>
    code (response r4) = 200 \<longrightarrow> fst (stop self t) = Inr ())"
  by (auto simp: inform_current_service_info_accepted is_dict_extract_args_empty
      keys_extract_args dict_get_extract_args
      intro: inform_previous_service_info_accepted start_accepted stop_accepted)

theorem success_results_witness:
  "fst (inform_current_service_info
         (init ''B'' ''10.0.0.2'' 9001
            (answering \<lparr>code = 200, message = ''OK''\<rparr> [(''gpu'', ''0''), (''batch'', ''8'')]) 0)
         ''t1'' (Some (PyDict [(''version'', ''1'')]))) =
     Inr [(''gpu'', ''0''), (''batch'', ''8'')] \<and>
   fst (inform_previous_service_info
         (init ''B'' ''10.0.0.2'' 9001
            (answering \<lparr>code = 200, message = ''OK''\<rparr> [(''gpu'', ''0''), (''batch'', ''8'')]) 0)
         ''t1'' ''A'' ''10.0.0.1'' ''9000'' (Some (PyDict [(''version'', ''1'')]))) = Inr () \<and>
   fst (start
         (init ''B'' ''10.0.0.2'' 9001
            (answering \<lparr>code = 200, message = ''OK''\<rparr> [(''gpu'', ''0''), (''batch'', ''8'')]) 0)
         ''t1'') = Inr () \<and>
   fst (stop
         (init ''B'' ''10.0.0.2'' 9001
            (answering \<lparr>code = 200, message = ''OK''\<rparr> [(''gpu'', ''0''), (''batch'', ''8'')]) 0)
         ''t1'') = Inr ()"
  using success_results
      [of "init ''B'' ''10.0.0.2'' 9001
            (answering \<lparr>code = 200, message = ''OK''\<rparr> [(''gpu'', ''0''), (''batch'', ''8'')]) 0"
          "''t1''" "Some (PyDict [(''version'', ''1'')])"
          "\<lparr>response = \<lparr>code = 200, message = ''OK''\<rparr>,
             args = [(''gpu'', ''0''), (''batch'', ''8'')]\<rparr>"
          "''A''" "''10.0.0.1''" "''9000''"
          "\<lparr>response = \<lparr>code = 200, message = ''OK''\<rparr>\<rparr>"
          "\<lparr>response = \<lparr>code = 200, message = ''OK''\<rparr>\<rparr>"
          "\<lparr>response = \<lparr>code = 200, message = ''OK''\<rparr>\<rparr>"]
  by (simp add: returns_def answering_def init_def)

text \<open>
  C4. What inform-current hands back depends on the coordinator's response only: two
  calls (whatever the client, the task id and the submitted \<^verbatim>\<open>args\<close>) that get the
  same response hand back the same dict, or both raise.
\<close>

theorem returned_args_independent_of_submitted:
  assumes "returns (informCurrentServiceInfo (client self1))
             (InformCurrentServiceInfoRequest t1 (add_args (args_param a1))) self1 r"
    and "returns (informCurrentServiceInfo (client self2))
             (InformCurrentServiceInfoRequest t2 (add_args (args_param a2))) self2 r"
  shows "returned (fst (inform_current_service_info self1 t1 a1)) =
         returned (fst (inform_current_service_info self2 t2 a2))"
  unfolding inform_current_service_info_outcome[OF assms(1)]
    inform_current_service_info_outcome[OF assms(2)]
  by simp

theorem returned_args_independent_of_submitted_witness:
  "returned (fst (inform_current_service_info
       (init ''B'' ''10.0.0.2'' 9001
          (answering \<lparr>code = 200, message = ''OK''\<rparr> [(''gpu'', ''0'')]) 0)
       ''t1'' (Some (PyDict [(''version'', ''1'')])))) =
   returned (fst (inform_current_service_info
       (init ''B'' ''10.0.0.2'' 9001
          (answering \<lparr>code = 200, message = ''OK''\<rparr> [(''gpu'', ''0'')]) 0)
       ''t1'' (Some (PyDict [(''gpu'', ''7''), (''mode'', ''fast'')]))))"
  using returned_args_independent_of_submitted
      [of "init ''B'' ''10.0.0.2'' 9001
            (answering \<lparr>code = 200, message = ''OK''\<rparr> [(''gpu'', ''0'')]) 0"
          "''t1''" "Some (PyDict [(''version'', ''1'')])"
          "\<lparr>response = \<lparr>code = 200, message = ''OK''\<rparr>, args = [(''gpu'', ''0'')]\<rparr>"
          "init ''B'' ''10.0.0.2'' 9001
            (answering \<lparr>code = 200, message = ''OK''\<rparr> [(''gpu'', ''0'')]) 0"
          "''t1''" "Some (PyDict [(''gpu'', ''7''), (''mode'', ''fast'')])"]
  by (simp add: returns_def answering_def init_def)

text \<open>
  C5. Round trip of the argument map: the pairs that an inform call puts on the wire for
  a dict, one per item and in insertion order, are turned back into that very dict by
  the loop with which inform-current reads the \<^verbatim>\<open>args\<close> of a response.
\<close>

theorem argument_map_round_trip:
  "is_dict d \<Longrightarrow>
     extract_args []
       (request_args (InformCurrentServiceInfoRequest t (add_args (PyDict d)))) = d \<and>
     extract_args []
       (request_args (InformPreviousServiceInfoRequest t n i p (add_args (PyDict d)))) = d"
  using extract_args_distinct[of "[]" d] by (simp add: is_dict_def items_def)

theorem argument_map_round_trip_witness:
  "is_dict [(''version'', ''1''), (''mode'', ''fast'')] \<and>
   extract_args []
     (request_args (InformCurrentServiceInfoRequest ''t1''
        (add_args (PyDict [(''version'', ''1''), (''mode'', ''fast'')])))) =
     [(''version'', ''1''), (''mode'', ''fast'')] \<and>
   extract_args []
     (request_args (InformPreviousServiceInfoRequest ''t1'' ''A'' ''10.0.0.1'' ''9000''
        (add_args (PyDict [(''version'', ''1''), (''mode'', ''fast'')])))) =
     [(''version'', ''1''), (''mode'', ''fast'')]"
proof -
  have d: "is_dict [(''version'', ''1''), (''mode'', ''fast'')]"
    by (simp add: is_dict_def)
  from argument_map_round_trip[OF d, of "''t1''" "''A''" "''10.0.0.1''" "''9000''"] d
  show ?thesis by blast
qed

text \<open>
  C6. No method retries: whatever the outcome of the RPC (an answer with status 200, an
  answer with another status, an exception of the substrate), one call of a method sends
  exactly one request over the channel, and the remote side takes exactly one step.
\<close>

theorem exactly_one_rpc_per_call:
  "calls (conn (snd (inform_previous_service_info self t n i p a))) =
     calls (conn self) @ [InformPreviousServiceInfoRequest t n i p (add_args (args_param a))] \<and>
   remote (conn (snd (inform_previous_service_info self t n i p a))) =
     snd (informPreviousServiceInfo (client self)
            (InformPreviousServiceInfoRequest t n i p (add_args (args_param a)))
            (remote (conn self))) \<and>
   calls (conn (snd (inform_current_service_info self t a))) =
     calls (conn self) @ [InformCurrentServiceInfoRequest t (add_args (args_param a))] \<and>
   remote (conn (snd (inform_current_service_info self t a))) =
     snd (informCurrentServiceInfo (client self)
            (InformCurrentServiceInfoRequest t (add_args (args_param a)))
            (remote (conn self))) \<and>
   calls (conn (snd (start self t))) = calls (conn self) @ [StartRequest t] \<and>
   remote (conn (snd (start self t))) =
     snd (stub_start (client self) (StartRequest t) (remote (conn self))) \<and>
   calls (conn (snd (stop self t))) = calls (conn self) @ [StopRequest t] \<and>
   remote (conn (snd (stop self t))) =
     snd (stub_stop (client self) (StopRequest t) (remote (conn self)))"
  by (simp add: snd_inform_previous_service_info snd_inform_current_service_info
      snd_start snd_stop snd_invoke)

text \<open>
  C7. The identity of the client is fixed at construction: the constructor stores the
  name, ip and port it is given, and no method, on any input and with any outcome,
  changes them (nor the stub).
\<close>

theorem identity_fixed_at_construction:
  "name (init n0 i0 p0 stub remote0) = n0 \<and>
   ip (init n0 i0 p0 stub remote0) = i0 \<and>
   port (init n0 i0 p0 stub remote0) = p0 \<and>
   name (snd (inform_previous_service_info self t n i p a)) = name self \<and>
   ip (snd (inform_previous_service_info self t n i p a)) = ip self \<and>
   port (snd (inform_previous_service_info self t n i p a)) = port self \<and>
   name (snd (inform_current_service_info self t a)) = name self \<and>
   ip (snd (inform_current_service_info self t a)) = ip self \<and>
   port (snd (inform_current_service_info self t a)) = port self \<and>
   name (snd (start self t)) = name self \<and>
   ip (snd (start self t)) = ip self \<and>
   port (snd (start self t)) = port self \<and>
   name (snd (stop self t)) = name self \<and>
   ip (snd (stop self t)) = ip self \<and>
   port (snd (stop self t)) = port self"
  by (simp add: snd_inform_previous_service_info snd_inform_current_service_info
      snd_start snd_stop snd_invoke init_def)

lemma add_args_not_dict: "\<not> isinstance_dict v \<Longrightarrow> add_args v = []"
  by (cases v) simp_all

text \<open>
  C8. When \<^verbatim>\<open>args\<close> is not a dict, the two inform methods do not raise because of
  it: the value is dropped, the request goes out with an empty \<^verbatim>\<open>args\<close> sequence, and
  the call does exactly what it does for the empty dict.
\<close>

theorem non_dict_args_dropped:
  "\<not> isinstance_dict v \<Longrightarrow>
     inform_previous_service_info self t n i p (Some v) =
       inform_previous_service_info self t n i p (Some (PyDict [])) \<and>
     last (calls (conn (snd (inform_previous_service_info self t n i p (Some v))))) =
       InformPreviousServiceInfoRequest t n i p [] \<and>
     inform_current_service_info self t (Some v) =
       inform_current_service_info self t (Some (PyDict [])) \<and>
     last (calls (conn (snd (inform_current_service_info self t (Some v))))) =
       InformCurrentServiceInfoRequest t []"
proof -
  assume v: "\<not> isinstance_dict v"
  have prev: "inform_previous_service_info self t n i p (Some v) =
       inform_previous_service_info self t n i p (Some (PyDict []))"
    by (simp add: inform_previous_service_info_def add_args_not_dict[OF v] items_def)
  have cur: "inform_current_service_info self t (Some v) =
       inform_current_service_info self t (Some (PyDict []))"
    by (simp add: inform_current_service_info_def add_args_not_dict[OF v] items_def)
  have "last (calls (conn (snd (inform_previous_service_info self t n i p (Some v))))) =
       InformPreviousServiceInfoRequest t n i p []"
    by (simp add: snd_inform_previous_service_info snd_invoke add_args_not_dict[OF v])
  moreover
  have "last (calls (conn (snd (inform_current_service_info self t (Some v))))) =
       InformCurrentServiceInfoRequest t []"
    by (simp add: snd_inform_current_service_info snd_invoke add_args_not_dict[OF v])
  ultimately show ?thesis using prev cur by simp
qed

theorem non_dict_args_dropped_witness:
  "\<not> isinstance_dict (PyList [''version'', ''1'']) \<and>
   inform_previous_service_info
         (init ''B'' ''10.0.0.2'' 9001
            (answering \<lparr>code = 200, message = ''OK''\<rparr> [(''gpu'', ''0'')]) 0)
         ''t1'' ''A'' ''10.0.0.1'' ''9000'' (Some (PyList [''version'', ''1''])) =
     inform_previous_service_info
         (init ''B'' ''10.0.0.2'' 9001
            (answering \<lparr>code = 200, message = ''OK''\<rparr> [(''gpu'', ''0'')]) 0)
         ''t1'' ''A'' ''10.0.0.1'' ''9000'' (Some (PyDict [])) \<and>
   last (calls (conn (snd (inform_previous_service_info
         (init ''B'' ''10.0.0.2'' 9001
            (answering \<lparr>code = 200, message = ''OK''\<rparr> [(''gpu'', ''0'')]) 0)
         ''t1'' ''A'' ''10.0.0.1'' ''9000'' (Some (PyList [''version'', ''1''])))))) =
     InformPreviousServiceInfoRequest ''t1'' ''A'' ''10.0.0.1'' ''9000'' [] \<and>
   inform_current_service_info
         (init ''B'' ''10.0.0.2'' 9001
            (answering \<lparr>code = 200, message = ''OK''\<rparr> [(''gpu'', ''0'')]) 0)
         ''t1'' (Some (PyList [''version'', ''1''])) =
     inform_current_service_info
         (init ''B'' ''10.0.0.2'' 9001
            (answering \<lparr>code = 200, message = ''OK''\<rparr> [(''gpu'', ''0'')]) 0)
         ''t1'' (Some (PyDict [])) \<and>
   last (calls (conn (snd (inform_current_service_info
         (init ''B'' ''10.0.0.2'' 9001
            (answering \<lparr>code = 200, message = ''OK''\<rparr> [(''gpu'', ''0'')]) 0)
         ''t1'' (Some (PyList [''version'', ''1''])))))) =
     InformCurrentServiceInfoRequest ''t1'' []"
proof -
  have v: "\<not> isinstance_dict (PyList [''version'', ''1''])" by simp
  from v non_dict_args_dropped[OF v,
      of "init ''B'' ''10.0.0.2'' 9001
            (answering \<lparr>code = 200, message = ''OK''\<rparr> [(''gpu'', ''0'')]) 0"
         "''t1''" "''A''" "''10.0.0.1''" "''9000''"]
  show ?thesis by blast
qed

text \<open>
  C9. Leaving \<^verbatim>\<open>args\<close> out is the same as passing the empty dict: the two inform
  methods then send the same request, with an empty \<^verbatim>\<open>args\<close> sequence, and do the
  same.
\<close>

theorem omitted_args_is_empty_dict:
  "inform_previous_service_info self t n i p None =
     inform_previous_service_info self t n i p (Some (PyDict [])) \<and>
   last (calls (conn (snd (inform_previous_service_info self t n i p None)))) =
     InformPreviousServiceInfoRequest t n i p [] \<and>
   last (calls (conn (snd (inform_previous_service_info self t n i p (Some (PyDict [])))))) =
     InformPreviousServiceInfoRequest t n i p [] \<and>
   inform_current_service_info self t None =
     inform_current_service_info self t (Some (PyDict [])) \<and>
   last (calls (conn (snd (inform_current_service_info self t None)))) =
     InformCurrentServiceInfoRequest t [] \<and>
   last (calls (conn (snd (inform_current_service_info self t (Some (PyDict [])))))) =
     InformCurrentServiceInfoRequest t []"
proof -
  have "inform_previous_service_info self t n i p None =
     inform_previous_service_info self t n i p (Some (PyDict []))"
    by (simp add: inform_previous_service_info_def)
  moreover
  have "inform_current_service_info self t None =
     inform_current_service_info self t (Some (PyDict []))"
    by (simp add: inform_current_service_info_def)
  ultimately show ?thesis
    by (simp add: snd_inform_previous_service_info snd_inform_current_service_info
        snd_invoke items_def)
qed

text \<open>
  C10. When the \<^verbatim>\<open>args\<close> of a response with status 200 list a key more than once,
  the dict that inform-current returns binds the key to the value of its last pair.
\<close>

theorem last_duplicate_wins:
  assumes "returns (informCurrentServiceInfo (client self))
             (InformCurrentServiceInfoRequest t (add_args (args_param a))) self r"
    and "code (response r) = 200"
    and "args r = xs @ (k, v) # ys"
    and "k \<notin> fst ` set ys"
  shows "fst (inform_current_service_info self t a) = Inr (extract_args [] (args r)) \<and>
         dict_get (extract_args [] (args r)) k = Some v"
proof -
  have "map_of (rev ys) k = None"
    using assms(4) by (simp add: map_of_eq_None_iff)
  then have "map_of (rev (xs @ (k, v) # ys)) k = Some v"
    by (simp add: map_add_def)
  then show ?thesis
    using inform_current_service_info_accepted[OF assms(1,2)] assms(3)
    by (simp add: dict_get_extract_args)
qed

theorem last_duplicate_wins_witness:
  "fst (inform_current_service_info
         (init ''B'' ''10.0.0.2'' 9001
            (answering \<lparr>code = 200, message = ''OK''\<rparr>
               [(''gpu'', ''0''), (''batch'', ''8''), (''gpu'', ''1'')]) 0)
         ''t1'' None) = Inr [(''gpu'', ''1''), (''batch'', ''8'')] \<and>
   dict_get [(''gpu'', ''1''), (''batch'', ''8'')] ''gpu'' = Some ''1''"
  using last_duplicate_wins
      [of "init ''B'' ''10.0.0.2'' 9001
            (answering \<lparr>code = 200, message = ''OK''\<rparr>
               [(''gpu'', ''0''), (''batch'', ''8''), (''gpu'', ''1'')]) 0"
          "''t1''" None
          "\<lparr>response = \<lparr>code = 200, message = ''OK''\<rparr>,
             args = [(''gpu'', ''0''), (''batch'', ''8''), (''gpu'', ''1'')]\<rparr>"
          "[(''gpu'', ''0''), (''batch'', ''8'')]" "''gpu''" "''1''" "[]"]
  by (simp add: returns_def answering_def init_def)

text \<open>
  C2. When the substrate raises \<^verbatim>\<open>grpc.RpcError\<close>, the handler of each method
  executes \<^verbatim>\<open>raise(f'gRPC error in ...: \n{e}') from e\<close>, whose operand is a
  \<^verbatim>\<open>str\<close>: what reaches the caller is the interpreter's \<^verbatim>\<open>TypeError\<close>, without
  the text built by the handler and with no \<^verbatim>\<open>__cause__\<close>; the \<^verbatim>\<open>RpcError\<close> is
  only its implicit \<^verbatim>\<open>__context__\<close>.
\<close>

theorem transport_failure_raises_TypeError:
  "fst (inform_previous_service_info
         (init ''B'' ''10.0.0.2'' 9001 (unreachable (PyExc RpcError ''unavailable'' None None)) 0)
         ''t1'' ''A'' ''10.0.0.1'' ''9000'' None) =
     Inl (PyExc TypeError ''exceptions must derive from BaseException'' None
            (Some (PyExc RpcError ''unavailable'' None None))) \<and>
   fst (inform_current_service_info
         (init ''B'' ''10.0.0.2'' 9001 (unreachable (PyExc RpcError ''unavailable'' None None)) 0)
         ''t1'' None) =
     Inl (PyExc TypeError ''exceptions must derive from BaseException'' None
            (Some (PyExc RpcError ''unavailable'' None None))) \<and>
   fst (start
         (init ''B'' ''10.0.0.2'' 9001 (unreachable (PyExc RpcError ''unavailable'' None None)) 0)
         ''t1'') =
     Inl (PyExc TypeError ''exceptions must derive from BaseException'' None
            (Some (PyExc RpcError ''unavailable'' None None))) \<and>
   fst (stop
         (init ''B'' ''10.0.0.2'' 9001 (unreachable (PyExc RpcError ''unavailable'' None None)) 0)
         ''t1'') =
     Inl (PyExc TypeError ''exceptions must derive from BaseException'' None
            (Some (PyExc RpcError ''unavailable'' None None)))"
  by (simp add: inform_previous_service_info_def inform_current_service_info_def start_def
      stop_def invoke_def unreachable_def init_def except_RpcError_def)

end
